theory Spec2Isabelle
  imports Complex_Main
begin

section \<open>Python values and the library the exporter calls\<close>

text \<open>
  The exporter handles the objects that the JSON parser returns (None, bool, int, float,
  str, list, dict) and computes ints, floats and strings from them. One datatype holds
  them all. A dict is an association list in insertion order with distinct keys; the type
  of floats is a parameter \<open>'f\<close>, and every float operation is a field of the
  environment record below, so that nothing is assumed about rounding.
\<close>

datatype 'f json =
    JNull
  | JBool bool
  | JInt int
  | JFloat 'f
  | JStr string
  | JArr "'f json list"
  | JObj "(string \<times> 'f json) list"

datatype pyerr =
    KeyError
  | TypeError
  | AttributeError
  | ValueError
  | OverflowError
  | JSONDecodeError
  | TransportError
  | RuntimeError string

text \<open>What \<open>requests.Session.get\<close> gives: an exception, or a status code and a body
  that \<open>result.json()\<close> parses (\<open>Some\<close>) or rejects (\<open>None\<close>).\<close>

datatype 'f response =
    Raises pyerr
  | Response int "'f json option"

text \<open>The world outside the process: the requests sent so far (URL and Authorization
  header) and how often the clock has been read.\<close>

record world =
  calls :: "(string \<times> string) list"
  clock_reads :: nat

text \<open>
  The environment: the network, the clock, the date library and the float and string
  conversions of Python. \<open>float_overflow i\<close> says that \<open>float(i)\<close> raises
  OverflowError; \<open>int_of_float\<close> is \<open>int(x)\<close> on a float, which raises on
  infinities and NaN; \<open>isoparse_timetuple\<close> is
  \<open>dateutil.parser.isoparse(x).timetuple()\<close>, a tuple of nine ints.
\<close>

record 'f env =
  http_get :: "world \<Rightarrow> string \<Rightarrow> string \<Rightarrow> 'f response"
  time_time :: "world \<Rightarrow> 'f"
  isoparse_timetuple :: "'f json \<Rightarrow> pyerr + int list"
  mktime :: "int list \<Rightarrow> pyerr + 'f"
  float_of_int :: "int \<Rightarrow> 'f"
  float_overflow :: "int \<Rightarrow> bool"
  float_of_str :: "string \<Rightarrow> 'f option"
  fmul :: "'f \<Rightarrow> 'f \<Rightarrow> 'f"
  fdiv :: "'f \<Rightarrow> 'f \<Rightarrow> 'f"
  fsub :: "'f \<Rightarrow> 'f \<Rightarrow> 'f"
  int_of_float :: "'f \<Rightarrow> pyerr + int"
  int_of_str :: "string \<Rightarrow> int option"
  float_repr :: "'f \<Rightarrow> string"
  container_repr :: "'f json \<Rightarrow> string"

definition dquote :: char where
  "dquote = CHR 0x22"

definition newline :: char where
  "newline = CHR 0x0A"

subsection \<open>Builtins\<close>

fun digits :: "nat \<Rightarrow> string" where
  "digits n =
     (if n < 10 then [''0123456789'' ! n]
      else digits (n div 10) @ [''0123456789'' ! (n mod 10)])"

declare digits.simps [simp del]

definition str_int :: "int \<Rightarrow> string" where
  "str_int i = (if i < 0 then CHR ''-'' # digits (nat (- i)) else digits (nat i))"

text \<open>\<open>str(v)\<close>, which is what the \<open>%s\<close> conversion applies.\<close>

definition py_str :: "'f env \<Rightarrow> 'f json \<Rightarrow> string" where
  "py_str env v =
     (case v of
        JNull \<Rightarrow> ''None''
      | JBool b \<Rightarrow> (if b then ''True'' else ''False'')
      | JInt i \<Rightarrow> str_int i
      | JFloat x \<Rightarrow> float_repr env x
      | JStr s \<Rightarrow> s
      | JArr xs \<Rightarrow> container_repr env v
      | JObj kvs \<Rightarrow> container_repr env v)"

text \<open>\<open>sep.join(xs)\<close>.\<close>

fun py_join :: "string \<Rightarrow> string list \<Rightarrow> string" where
  "py_join sep [] = []"
| "py_join sep [x] = x"
| "py_join sep (x # y # ys) = x @ sep @ py_join sep (y # ys)"

text \<open>\<open>s.strip(chars)\<close>: the characters of \<open>chars\<close> are removed from both ends.\<close>

definition py_strip :: "string \<Rightarrow> string \<Rightarrow> string" where
  "py_strip chars s =
     rev (dropWhile (\<lambda>c. c \<in> set chars) (rev (dropWhile (\<lambda>c. c \<in> set chars) s)))"

text \<open>\<open>v[k]\<close> with a string key: only a dict has string keys.\<close>

definition getitem :: "'f json \<Rightarrow> string \<Rightarrow> pyerr + 'f json" where
  "getitem v k =
     (case v of
        JObj kvs \<Rightarrow> (case map_of kvs k of None \<Rightarrow> Inl KeyError | Some x \<Rightarrow> Inr x)
      | _ \<Rightarrow> Inl TypeError)"

text \<open>\<open>v.get(k)\<close>: only a dict has the method.\<close>

definition py_get :: "'f json \<Rightarrow> string \<Rightarrow> pyerr + 'f json" where
  "py_get v k =
     (case v of
        JObj kvs \<Rightarrow> (case map_of kvs k of None \<Rightarrow> Inr JNull | Some x \<Rightarrow> Inr x)
      | _ \<Rightarrow> Inl AttributeError)"

text \<open>\<open>for entry in v\<close>: a list gives its elements, a dict its keys, a str its
  characters; nothing else is iterable.\<close>

definition py_iter :: "'f json \<Rightarrow> pyerr + 'f json list" where
  "py_iter v =
     (case v of
        JArr xs \<Rightarrow> Inr xs
      | JObj kvs \<Rightarrow> Inr (map (\<lambda>kv. JStr (fst kv)) kvs)
      | JStr s \<Rightarrow> Inr (map (\<lambda>c. JStr [c]) s)
      | _ \<Rightarrow> Inl TypeError)"

text \<open>\<open>float(v)\<close> and \<open>int(v)\<close>.\<close>

definition py_float :: "'f env \<Rightarrow> 'f json \<Rightarrow> pyerr + 'f" where
  "py_float env v =
     (case v of
        JInt i \<Rightarrow> (if float_overflow env i then Inl OverflowError else Inr (float_of_int env i))
      | JBool b \<Rightarrow> Inr (float_of_int env (if b then 1 else 0))
      | JFloat x \<Rightarrow> Inr x
      | JStr s \<Rightarrow> (case float_of_str env s of None \<Rightarrow> Inl ValueError | Some x \<Rightarrow> Inr x)
      | _ \<Rightarrow> Inl TypeError)"

definition py_int :: "'f env \<Rightarrow> 'f json \<Rightarrow> pyerr + int" where
  "py_int env v =
     (case v of
        JInt i \<Rightarrow> Inr i
      | JBool b \<Rightarrow> Inr (if b then 1 else 0)
      | JFloat x \<Rightarrow> int_of_float env x
      | JStr s \<Rightarrow> (case int_of_str env s of None \<Rightarrow> Inl ValueError | Some i \<Rightarrow> Inr i)
      | _ \<Rightarrow> Inl TypeError)"

section \<open>RedfishAPI\<close>

text \<open>
  The object's attributes. \<open>token\<close> is \<open>None\<close> for Python's None; \<open>metrics\<close> is
  the list of rendered lines. The constructor leaves both unset in the source; every path
  from \<open>collect_metrics\<close> assigns them (in \<open>authenticate\<close> and
  \<open>metrics_clear\<close>) before reading them.
\<close>

record redfish =
  server :: string
  baseurl :: string
  sslcert :: bool
  token :: "string option"
  metrics :: "string list"

definition RedfishAPI :: "string \<Rightarrow> redfish" where
  "RedfishAPI srv =
     \<lparr>server = srv, baseurl = ''https://'' @ srv @ ''/redfish/v1'', sslcert = False,
      token = None, metrics = []\<rparr>"

text \<open>The dict that \<open>get\<close> returns.\<close>

record 'f retval =
  rv_json :: "'f json"
  rv_error :: "int option"

text \<open>Truth value of \<open>retval['error']\<close>: None and 0 are false.\<close>

definition truthy :: "int option \<Rightarrow> bool" where
  "truthy e = (case e of None \<Rightarrow> False | Some c \<Rightarrow> c \<noteq> 0)"

definition get :: "'f env \<Rightarrow> string \<Rightarrow> redfish \<Rightarrow> world \<Rightarrow> (pyerr + 'f retval) \<times> world" where
  "get env url s w =
     (let url' = baseurl s @ ''/'' @ url;
          auth = ''Basic '' @ (case token s of None \<Rightarrow> ''None'' | Some t \<Rightarrow> t);
          w' = w\<lparr>calls := calls w @ [(url', auth)]\<rparr>
      in case http_get env w url' auth of
           Raises e \<Rightarrow> (Inl e, w')
         | Response code body \<Rightarrow>
             (let code' = (if code = 200 then None else Some code)
              in case body of
                   None \<Rightarrow> (Inl JSONDecodeError, w')
                 | Some j \<Rightarrow> (Inr \<lparr>rv_json = j, rv_error = code'\<rparr>, w')))"

definition authenticate :: "'f env \<Rightarrow> string \<Rightarrow> redfish \<Rightarrow> world \<Rightarrow> bool \<times> redfish \<times> world" where
  "authenticate env tok s w =
     (let s1 = s\<lparr>token := Some tok\<rparr>
      in case get env ''Chassis'' s1 w of
           (Inl e, w') \<Rightarrow> (False, s1, w')
         | (Inr result, w') \<Rightarrow>
             (if \<not> truthy (rv_error result) then (True, s1, w')
              else (False, s1\<lparr>token := None\<rparr>, w')))"

subsection \<open>The metric sink\<close>

definition metrics_clear :: "redfish \<Rightarrow> redfish" where
  "metrics_clear s = s\<lparr>metrics := []\<rparr>"

definition metrics_get :: "redfish \<Rightarrow> string \<times> redfish" where
  "metrics_get s = (py_join [newline] (metrics s) @ [newline], s)"

definition metrics_add ::
  "'f env \<Rightarrow> string \<Rightarrow> (string \<times> 'f json) list \<Rightarrow> 'f json \<Rightarrow> redfish \<Rightarrow> redfish" where
  "metrics_add env name args val s =
     (let args' =
            (if args \<noteq> []
             then ''{'' @ py_join '',''
                    (map (\<lambda>kv. fst kv @ ''='' @ [dquote] @ py_str env (snd kv) @ [dquote]) args)
                  @ ''}''
             else '''');
          val' = (case val of JNull \<Rightarrow> ''NaN'' | _ \<Rightarrow> py_str env val)
      in s\<lparr>metrics := metrics s @ [''idrac_'' @ name @ args' @ '' '' @ val']\<rparr>)"

subsection \<open>Collectors\<close>

text \<open>
  A collector returns \<open>Inr ()\<close> when it returns normally and \<open>Inl e\<close> when the
  exception \<open>e\<close> leaves it; the lines appended before the exception stay in the object.
  \<open>step r s k\<close> continues with \<open>k\<close> on the value of \<open>r\<close>, or stops with its
  exception in the state \<open>s\<close>.
\<close>

definition step :: "(pyerr + 'a) \<Rightarrow> 's \<Rightarrow> ('a \<Rightarrow> (pyerr + 'b) \<times> 's) \<Rightarrow> (pyerr + 'b) \<times> 's" where
  "step r s k = (case r of Inl e \<Rightarrow> (Inl e, s) | Inr v \<Rightarrow> k v)"

text \<open>A \<open>for\<close> loop over a list: the body runs on each element in turn, and the first
  exception ends the loop.\<close>

fun for_each :: "('a \<Rightarrow> 's \<Rightarrow> (pyerr + unit) \<times> 's) \<Rightarrow> 'a list \<Rightarrow> 's \<Rightarrow> (pyerr + unit) \<times> 's" where
  "for_each body [] s = (Inr (), s)"
| "for_each body (x # xs) s =
     (case body x s of
        (Inl e, s') \<Rightarrow> (Inl e, s')
      | (Inr u, s') \<Rightarrow> for_each body xs s')"

text \<open>The body of the loop of \<open>collect_sel\<close>. The clock is read once per entry.\<close>

definition sel_entry :: "'f env \<Rightarrow> 'f json \<Rightarrow> redfish \<times> world \<Rightarrow> (pyerr + unit) \<times> redfish \<times> world" where
  "sel_entry env entry sw =
     (case sw of (s, w) \<Rightarrow>
      step (getitem entry ''Id'') sw (\<lambda>eid.
      step (getitem entry ''Message'') sw (\<lambda>msg.
      step (case msg of JStr m \<Rightarrow> Inr (py_strip ''.'' m) | _ \<Rightarrow> Inl AttributeError) sw (\<lambda>message.
      step (getitem entry ''SensorType'') sw (\<lambda>component.
      step (getitem entry ''Severity'') sw (\<lambda>severity.
      (let args = [(''id'', eid), (''message'', JStr message), (''component'', component),
                   (''severity'', severity)]
       in
      step (getitem entry ''Created'') sw (\<lambda>created.
      step (isoparse_timetuple env created) sw (\<lambda>tt.
      (let now = time_time env w;
           w' = w\<lparr>clock_reads := Suc (clock_reads w)\<rparr>
       in
      step (mktime env tt) (s, w') (\<lambda>t.
      step (int_of_float env (fsub env now t)) (s, w') (\<lambda>age.
        (Inr (), metrics_add env ''sel_entry'' args (JInt age) s, w')))))))))))))"

definition collect_sel :: "'f env \<Rightarrow> redfish \<Rightarrow> world \<Rightarrow> (pyerr + unit) \<times> redfish \<times> world" where
  "collect_sel env s w =
     (case get env ''Managers/iDRAC.Embedded.1/Logs/Sel'' s w of
        (Inl e, w') \<Rightarrow> (Inl e, s, w')
      | (Inr data, w') \<Rightarrow>
          (if truthy (rv_error data) then (Inr (), s, w')
           else
             step (py_get (rv_json data) ''Members'') (s, w') (\<lambda>members.
             step (py_iter members) (s, w') (\<lambda>entries.
               for_each (sel_entry env) entries (s, w')))))"

definition collect_basics :: "'f env \<Rightarrow> redfish \<Rightarrow> world \<Rightarrow> (pyerr + unit) \<times> redfish \<times> world" where
  "collect_basics env s w =
     (case get env ''Systems/System.Embedded.1'' s w of
        (Inl e, w') \<Rightarrow> (Inl e, s, w')
      | (Inr r, w') \<Rightarrow>
          (if truthy (rv_error r) then (Inr (), s, w')
           else
             (let data = rv_json r in
             step (getitem data ''PowerState'') (s, w') (\<lambda>power.
             (let s1 = metrics_add env ''power_on'' [] (JInt (if power = JStr ''On'' then 1 else 0)) s in
             step (getitem data ''Status'') (s1, w') (\<lambda>status.
             step (getitem status ''Health'') (s1, w') (\<lambda>health.
             (let s2 = metrics_add env ''health_ok'' [(''status'', health)]
                         (JInt (if health = JStr ''OK'' then 1 else 0)) s1 in
             step (getitem data ''IndicatorLED'') (s2, w') (\<lambda>led.
             (let s3 = metrics_add env ''indicator_led_on'' []
                         (JInt (if led = JStr ''Off'' then 0 else 1)) s2 in
             step (getitem data ''MemorySummary'') (s3, w') (\<lambda>memsum.
             step (getitem memsum ''TotalSystemMemoryGiB'') (s3, w') (\<lambda>gib.
             step (py_float env gib) (s3, w') (\<lambda>g.
             step (int_of_float env
                     (fdiv env (fmul env g (float_of_int env (1024 ^ 4))) (float_of_int env (10 ^ 9))))
                  (s3, w') (\<lambda>mem.
             (let s4 = metrics_add env ''memory_size'' [] (JInt mem) s3 in
             step (getitem data ''ProcessorSummary'') (s4, w') (\<lambda>procsum.
             step (getitem procsum ''Model'') (s4, w') (\<lambda>model.
             step (getitem data ''ProcessorSummary'') (s4, w') (\<lambda>procsum'.
             step (getitem procsum' ''Count'') (s4, w') (\<lambda>cnt.
             (let s5 = metrics_add env ''cpu_count'' [(''model'', model)] cnt s4 in
             step (getitem data ''BiosVersion'') (s5, w') (\<lambda>bios.
               (Inr (), metrics_add env ''bios_version'' [(''version'', bios)] JNull s5, w')
             )))))))))))))))))))))"

text \<open>The body of the loop of \<open>collect_sensors\<close>. The literal \<open>10.0\<close> is the
  float of the int 10.\<close>

definition sensor_entry :: "'f env \<Rightarrow> 'f json \<Rightarrow> redfish \<Rightarrow> (pyerr + unit) \<times> redfish" where
  "sensor_entry env entry s =
     step (getitem entry ''ElementName'') s (\<lambda>ename.
     step (getitem entry ''DeviceID'') s (\<lambda>devid.
     step (getitem entry ''EnabledState'') s (\<lambda>state.
     (let args = [(''name'', ename), (''id'', devid),
                  (''enabled'', JInt (if state = JStr ''Enabled'' then 1 else 0))]
      in
     step (getitem entry ''SensorType'') s (\<lambda>stype.
       if stype = JStr ''Temperature'' then
         step (getitem entry ''CurrentReading'') s (\<lambda>reading.
         step (py_float env reading) s (\<lambda>x.
           (Inr (), metrics_add env ''sensors_temperature'' args
                      (JFloat (fdiv env x (float_of_int env 10))) s)))
       else
         step (getitem entry ''SensorType'') s (\<lambda>stype'.
           if stype' = JStr ''Tachometer'' then
             step (getitem entry ''CurrentReading'') s (\<lambda>reading.
             step (py_int env reading) s (\<lambda>n.
               (Inr (), metrics_add env ''sensors_tachometer'' args (JInt n) s)))
           else (Inr (), s)))))))"

definition collect_sensors :: "'f env \<Rightarrow> redfish \<Rightarrow> world \<Rightarrow> (pyerr + unit) \<times> redfish \<times> world" where
  "collect_sensors env s w =
     (case get env ''Dell/Systems/System.Embedded.1/DellNumericSensorCollection'' s w of
        (Inl e, w') \<Rightarrow> (Inl e, s, w')
      | (Inr data, w') \<Rightarrow>
          (if truthy (rv_error data) then (Inr (), s, w')
           else
             step (py_get (rv_json data) ''Members'') (s, w') (\<lambda>members.
             step (py_iter members) (s, w') (\<lambda>entries.
               (case for_each (sensor_entry env) entries s of
                  (r, s') \<Rightarrow> (r, s', w'))))))"

definition RedfishAPI_collect_metrics ::
  "'f env \<Rightarrow> redfish \<Rightarrow> world \<Rightarrow> (pyerr + string) \<times> redfish \<times> world" where
  "RedfishAPI_collect_metrics env s w =
     (let s0 = metrics_clear s in
      case collect_basics env s0 w of
        (Inl e, s1, w1) \<Rightarrow> (Inl e, s1, w1)
      | (Inr u, s1, w1) \<Rightarrow>
          (case collect_sensors env s1 w1 of
             (Inl e, s2, w2) \<Rightarrow> (Inl e, s2, w2)
           | (Inr u, s2, w2) \<Rightarrow>
               (case collect_sel env s2 w2 of
                  (Inl e, s3, w3) \<Rightarrow> (Inl e, s3, w3)
                | (Inr u, s3, w3) \<Rightarrow>
                    (case metrics_get s3 of (text, s4) \<Rightarrow> (Inr text, s4, w3)))))"

section \<open>The host registry and the request handler\<close>

text \<open>
  An entry of the global dict \<open>hosts\<close>. The start-up code leaves \<open>username\<close>,
  \<open>password\<close> and \<open>token\<close> in every entry; \<open>host\<close> and \<open>valid\<close> are the keys
  that \<open>collect_metrics\<close> adds, \<open>None\<close> while the key is absent. No entry is
  an empty dict, so \<open>hosts.get(host)\<close> is false exactly for a missing key. The RedfishAPI
  object is held by value: the only attributes written after \<open>authenticate\<close> are the
  metric lines, which every pass clears before use.
\<close>

record info =
  info_username :: string
  info_password :: string
  info_token :: string
  info_host :: "redfish option"
  info_valid :: "bool option"

record state =
  hosts :: "string \<rightharpoonup> info"
  wld :: world

definition collect_metrics :: "'f env \<Rightarrow> string \<Rightarrow> state \<Rightarrow> (pyerr + string) \<times> state" where
  "collect_metrics env host st =
     step (if hosts st host = None
           then (case hosts st ''default'' of
                   None \<Rightarrow> Inl KeyError
                 | Some d \<Rightarrow> Inr ((hosts st)(host \<mapsto> d)))
           else Inr (hosts st)) st (\<lambda>hs.
     (case hs host of
        None \<Rightarrow> (Inl TypeError, st\<lparr>hosts := hs\<rparr>)
      | Some ent \<Rightarrow>
          (case (if info_host ent = None
                 then (case authenticate env (info_token ent) (RedfishAPI host) (wld st) of
                         (ok, h, w) \<Rightarrow> (ent\<lparr>info_host := Some h, info_valid := Some ok\<rparr>, w))
                 else (ent, wld st)) of
             (ent1, w1) \<Rightarrow>
               (if info_valid ent1 = Some True
                then (case info_host ent1 of
                        None \<Rightarrow> (Inl KeyError, \<lparr>hosts = hs(host \<mapsto> ent1), wld = w1\<rparr>)
                      | Some h \<Rightarrow>
                          (case RedfishAPI_collect_metrics env h w1 of
                             (r, h', w2) \<Rightarrow>
                               (r, \<lparr>hosts = hs(host \<mapsto> ent1\<lparr>info_host := Some h'\<rparr>), wld = w2\<rparr>)))
                else (Inl (RuntimeError ''Invalid host''),
                      \<lparr>hosts = hs(host \<mapsto> ent1), wld = w1\<rparr>)))))"

text \<open>
  \<open>re.match('/([a-z]+)(\?target=(.*))?', path)\<close>: groups 1 and 3 of the match, or
  \<open>None\<close> when the path does not start with a slash and a lower-case letter. Group 1
  is the longest run of lower-case letters; group 3 is \<open>None\<close> unless
  \<open>?target=\<close> follows at once, and then it is the rest of the line.
\<close>

definition is_lower :: "char \<Rightarrow> bool" where
  "is_lower c = (c \<in> set ''abcdefghijklmnopqrstuvwxyz'')"

definition re_match :: "string \<Rightarrow> (string \<times> string option) option" where
  "re_match path =
     (case path of
        [] \<Rightarrow> None
      | c # rest \<Rightarrow>
          (if c = CHR ''/'' \<and> takeWhile is_lower rest \<noteq> []
           then Some (takeWhile is_lower rest,
                      (let r = dropWhile is_lower rest
                       in if take 8 r = ''?target=''
                          then Some (takeWhile (\<lambda>x. x \<noteq> newline) (drop 8 r))
                          else None))
           else None))"

text \<open>
  \<open>do_GET\<close> answers with a status and a body, or an exception leaves it before
  \<open>send_response\<close> and nothing is sent.
\<close>

definition do_GET :: "'f env \<Rightarrow> string \<Rightarrow> state \<Rightarrow> (pyerr + int \<times> string) \<times> state" where
  "do_GET env path st =
     (case re_match path of
        None \<Rightarrow> (Inl AttributeError, st)
      | Some (b, p) \<Rightarrow>
          (if b = ''metrics'' then
             (case p of
                None \<Rightarrow> (Inr (400, []), st)
              | Some target \<Rightarrow>
                  (if target = [] then (Inr (400, []), st)
                   else (case collect_metrics env target st of
                           (Inl e, st') \<Rightarrow> (Inr (500, []), st')
                         | (Inr text, st') \<Rightarrow> (Inr (200, text), st'))))
           else (Inr (404, []), st)))"

text \<open>\<open>serve_forever\<close> on the requests that arrive, in order: the state after them.
  An exception that leaves a handler does not stop the server.\<close>

fun serve_forever :: "'f env \<Rightarrow> string list \<Rightarrow> state \<Rightarrow> state" where
  "serve_forever env [] st = st"
| "serve_forever env (path # paths) st = serve_forever env paths (snd (do_GET env path st))"

text \<open>The session of a target is marked invalid: the entry holds a RedfishAPI object and
  \<open>valid\<close> is False, as \<open>collect_metrics\<close> leaves it when the probe has failed.\<close>

definition invalid_session :: "state \<Rightarrow> string \<Rightarrow> bool" where
  "invalid_session st target =
     (case hosts st target of
        None \<Rightarrow> False
      | Some ent \<Rightarrow> info_host ent \<noteq> None \<and> info_valid ent = Some False)"

section \<open>An environment to run the model on\<close>

text \<open>
  An instance of the environment for evaluating the definitions on concrete inputs:
  exact rational arithmetic stands for the floats, the clock shows 1700003600, every
  timestamp string converts to 1700000000, and the network is the argument.
\<close>

definition exact_env :: "(world \<Rightarrow> string \<Rightarrow> string \<Rightarrow> rat response) \<Rightarrow> rat env" where
  "exact_env net =
     \<lparr>http_get = net,
      time_time = (\<lambda>w. 1700003600),
      isoparse_timetuple =
        (\<lambda>v. case v of JStr s \<Rightarrow> Inr [2023, 11, 14, 22, 13, 20, 1, 318, - 1] | _ \<Rightarrow> Inl TypeError),
      mktime = (\<lambda>tt. Inr 1700000000),
      float_of_int = rat_of_int,
      float_overflow = (\<lambda>i. False),
      float_of_str = (\<lambda>s. None),
      fmul = (\<lambda>x y. x * y),
      fdiv = (\<lambda>x y. x / y),
      fsub = (\<lambda>x y. x - y),
      int_of_float = (\<lambda>x. Inr (if 0 \<le> x then \<lfloor>x\<rfloor> else \<lceil>x\<rceil>)),
      int_of_str = (\<lambda>s. None),
      float_repr = (\<lambda>x. ''float''),
      container_repr = (\<lambda>v. ''container'')\<rparr>"

definition world0 :: world where
  "world0 = \<lparr>calls = [], clock_reads = 0\<rparr>"

text \<open>A network that answers from a table of URLs, and with status 404 and body
  \<open>null\<close> for every other URL.\<close>

definition net_table :: "(string \<times> rat response) list \<Rightarrow> world \<Rightarrow> string \<Rightarrow> string \<Rightarrow> rat response" where
  "net_table table w url auth =
     (case map_of table url of None \<Rightarrow> Response 404 (Some JNull) | Some r \<Rightarrow> r)"





definition system_doc :: "rat json" where
  "system_doc =
     JObj [(''PowerState'', JStr ''On''),
           (''Status'', JObj [(''Health'', JStr ''OK'')]),
           (''IndicatorLED'', JStr ''Off''),
           (''MemorySummary'', JObj [(''TotalSystemMemoryGiB'', JInt 64)]),
           (''ProcessorSummary'', JObj [(''Model'', JStr ''X''), (''Count'', JInt 2)]),
           (''BiosVersion'', JStr ''2.1'')]"


definition system_url :: string where
  "system_url = ''https://h/redfish/v1/Systems/System.Embedded.1''"


definition chassis_url :: string where
  "chassis_url = ''https://h/redfish/v1/Chassis''"

text \<open>The registry after start-up with one configured target, not yet requested.\<close>

definition state0 :: state where
  "state0 =
     \<lparr>hosts = [''h'' \<mapsto> \<lparr>info_username = ''u'', info_password = ''p'', info_token = ''dTpw'',
                          info_host = None, info_valid = None\<rparr>],
      wld = world0\<rparr>"


section \<open>Properties of the metric sink\<close>

lemma py_join_trailing:
  "xs \<noteq> [] \<Longrightarrow> py_join sep xs @ sep = concat (map (\<lambda>l. l @ sep) xs)"
  by (induction sep xs rule: py_join.induct) simp_all

lemma py_join_Cons:
  "py_join sep (x # xs) = x @ concat (map (\<lambda>y. sep @ y) xs)"
  by (induction sep xs arbitrary: x rule: py_join.induct) simp_all

text \<open>
  C8. \<open>metrics_get\<close> returns the lines of the buffer, each followed by a newline (a
  single newline when the buffer is empty, which is the join of no lines plus the trailing
  newline); it leaves the object as it was, and a second call returns the same text.
\<close>

theorem metrics_get_render:
  "fst (metrics_get s) =
     (if metrics s = [] then [newline] else concat (map (\<lambda>l. l @ [newline]) (metrics s)))
   \<and> snd (metrics_get s) = s
   \<and> metrics_get (snd (metrics_get s)) = metrics_get s"
  by (simp add: metrics_get_def py_join_trailing)

theorem metrics_get_render_witness:
  "fst (metrics_get ((RedfishAPI ''h'')\<lparr>metrics := [''a'', ''b'']\<rparr>)) = ''a'' @ [newline] @ ''b'' @ [newline]
   \<and> snd (metrics_get ((RedfishAPI ''h'')\<lparr>metrics := [''a'', ''b'']\<rparr>)) =
       (RedfishAPI ''h'')\<lparr>metrics := [''a'', ''b'']\<rparr>"
  using metrics_get_render [of "(RedfishAPI ''h'')\<lparr>metrics := [''a'', ''b'']\<rparr>"]
  by simp

text \<open>
  C9. \<open>metrics_add\<close> appends one line: \<open>idrac_\<close>, the name, the labels, a space and
  the value. Without labels nothing stands between the name and the space; with labels
  they are \<open>k="v"\<close> pairs separated by commas inside braces. The value None is written
  \<open>NaN\<close>, and a label value that is a string is copied between the quotes as it is.
\<close>

theorem metrics_add_line:
  "metrics (metrics_add env name [] v s) =
     metrics s @ [''idrac_'' @ name @ '' '' @ (case v of JNull \<Rightarrow> ''NaN'' | _ \<Rightarrow> py_str env v)]
   \<and> metrics (metrics_add env name ((k, x) # kvs) v s) =
     metrics s @
       [''idrac_'' @ name @ ''{'' @ k @ ''='' @ [dquote] @ py_str env x @ [dquote]
          @ concat (map (\<lambda>kv. '','' @ fst kv @ ''='' @ [dquote] @ py_str env (snd kv) @ [dquote]) kvs)
          @ ''}'' @ '' '' @ (case v of JNull \<Rightarrow> ''NaN'' | _ \<Rightarrow> py_str env v)]
   \<and> py_str env (JStr t) = t"
proof -
  have a: "py_str env (JStr t) = t"
    by (simp add: py_str_def)
  show ?thesis
    by (simp add: metrics_add_def py_join_Cons comp_def a)
qed

theorem metrics_add_line_witness:
  "metrics (metrics_add (exact_env (\<lambda>w u a. Raises TransportError)) ''bios_version''
      [(''version'', JStr [CHR ''2'', dquote, CHR ''x''])] JNull (RedfishAPI ''h'')) =
     [''idrac_bios_version{version='' @ [dquote] @ [CHR ''2'', dquote, CHR ''x''] @ [dquote] @ ''} NaN'']
   \<and> metrics (metrics_add (exact_env (\<lambda>w u a. Raises TransportError)) ''power_on'' [] (JInt 1)
      (RedfishAPI ''h'')) = [''idrac_power_on 1'']"
  using metrics_add_line [of "exact_env (\<lambda>w u a. Raises TransportError)" "''bios_version''"
      JNull "RedfishAPI ''h''" "''version''" "JStr [CHR ''2'', dquote, CHR ''x'']" "[]" "[]"]
    metrics_add_line [of "exact_env (\<lambda>w u a. Raises TransportError)" "''power_on''"
      "JInt 1" "RedfishAPI ''h''"]
  by (simp add: RedfishAPI_def py_str_def str_int_def digits.simps)


section \<open>Fetching a resource\<close>

text \<open>
  C2 (as amended). \<open>get\<close> has no handler of its own. It returns normally exactly when
  the transport returns a response whose body parses as JSON; the document it returns is
  that parsed body, whatever the status, and the error indicator is None for status 200
  and the status code otherwise. An exception of the transport, or a body that is not
  JSON, leaves \<open>get\<close> as an exception. Every call is sent: the request is appended
  to the calls of the world.
\<close>

theorem get_result:
  "fst (get env url s w) =
     (case http_get env w (baseurl s @ ''/'' @ url)
             (''Basic '' @ (case token s of None \<Rightarrow> ''None'' | Some t \<Rightarrow> t)) of
        Raises e \<Rightarrow> Inl e
      | Response code None \<Rightarrow> Inl JSONDecodeError
      | Response code (Some j) \<Rightarrow>
          Inr \<lparr>rv_json = j, rv_error = (if code = 200 then None else Some code)\<rparr>)
   \<and> snd (get env url s w) =
       w\<lparr>calls := calls w @ [(baseurl s @ ''/'' @ url,
             ''Basic '' @ (case token s of None \<Rightarrow> ''None'' | Some t \<Rightarrow> t))]\<rparr>"
  by (simp add: get_def Let_def split: response.split option.split)

theorem get_result_witness:
  "fst (get (exact_env (net_table [(system_url, Response 200 (Some system_doc))]))
         ''Systems/System.Embedded.1'' (RedfishAPI ''h'') world0)
     = Inr \<lparr>rv_json = system_doc, rv_error = None\<rparr>
   \<and> fst (get (exact_env (net_table [])) ''Chassis'' (RedfishAPI ''h'') world0)
     = Inr \<lparr>rv_json = JNull, rv_error = Some 404\<rparr>"
  using get_result [of "exact_env (net_table [(system_url, Response 200 (Some system_doc))])"
      "''Systems/System.Embedded.1''" "RedfishAPI ''h''" world0]
    get_result [of "exact_env (net_table [])" "''Chassis''" "RedfishAPI ''h''" world0]
  by (simp add: exact_env_def net_table_def RedfishAPI_def system_url_def)

text \<open>
  The claim as stated fails: a transport exception is raised to the caller, and a 404
  response with a JSON body returns that body, not an empty document.
\<close>

theorem get_raises_counterexample:
  "fst (get (exact_env (\<lambda>w u a. Raises TransportError)) ''Chassis'' (RedfishAPI ''h'') world0)
     = Inl TransportError
   \<and> fst (get (exact_env (\<lambda>w u a. Response 404 (Some (JObj [(''error'', JStr ''x'')])))) ''Chassis''
         (RedfishAPI ''h'') world0)
     = Inr \<lparr>rv_json = JObj [(''error'', JStr ''x'')], rv_error = Some 404\<rparr>"
  by (simp add: get_def exact_env_def Let_def)

section \<open>Failures inside a collection pass\<close>











section \<open>What the collectors emit\<close>

lemma step_Inr:
  assumes "step r s k = (Inr v, s')"
  obtains x where "r = Inr x" and "k x = (Inr v, s')"
  using assms by (cases r) (simp_all add: step_def)

lemma step_value: "r = Inr x \<Longrightarrow> step r s k = k x"
  by (simp add: step_def)

lemma collect_sensors_members:
  "get env ''Dell/Systems/System.Embedded.1/DellNumericSensorCollection'' s w = (Inr d, w') \<Longrightarrow>
   \<not> truthy (rv_error d) \<Longrightarrow> py_get (rv_json d) ''Members'' = Inr (JArr entries) \<Longrightarrow>
   collect_sensors env s w = (case for_each (sensor_entry env) entries s of (r, s') \<Rightarrow> (r, s', w'))"
  by (simp add: collect_sensors_def step_def py_iter_def)



text \<open>
  C6. When \<open>collect_basics\<close> returns normally on a fetched system resource whose
  \<open>TotalSystemMemoryGiB\<close> converts to the float \<open>g\<close>, it has appended six
  lines, and the fourth is \<open>idrac_memory_size\<close> with the value
  \<open>int(g * 1024 ** 4 / 10 ** 9)\<close>: the product and the quotient are the float
  operations on \<open>g\<close> and the floats of the two integer constants, and \<open>int\<close>
  is the conversion of a float to an int.
\<close>


theorem memory_size_value:
  assumes "get env ''Systems/System.Embedded.1'' s w = (Inr r, w')"
    and "\<not> truthy (rv_error r)"
    and "collect_basics env s w = (Inr (), s', w'')"
    and "getitem (rv_json r) ''MemorySummary'' = Inr memsum"
    and "getitem memsum ''TotalSystemMemoryGiB'' = Inr gib"
    and "py_float env gib = Inr g"
  shows "\<exists>n. int_of_float env
               (fdiv env (fmul env g (float_of_int env (1024 ^ 4))) (float_of_int env (10 ^ 9)))
             = Inr n
           \<and> length (metrics s') = length (metrics s) + 6
           \<and> metrics s' ! (length (metrics s) + 3) = ''idrac_memory_size '' @ str_int n"
proof -
  from assms(3) assms(1,2)
  have body:
    "step (getitem (rv_json r) ''PowerState'') (s, w') (\<lambda>power.
       (let s1 = metrics_add env ''power_on'' [] (JInt (if power = JStr ''On'' then 1 else 0)) s in
       step (getitem (rv_json r) ''Status'') (s1, w') (\<lambda>status.
       step (getitem status ''Health'') (s1, w') (\<lambda>health.
       (let s2 = metrics_add env ''health_ok'' [(''status'', health)]
                   (JInt (if health = JStr ''OK'' then 1 else 0)) s1 in
       step (getitem (rv_json r) ''IndicatorLED'') (s2, w') (\<lambda>led.
       (let s3 = metrics_add env ''indicator_led_on'' []
                   (JInt (if led = JStr ''Off'' then 0 else 1)) s2 in
       step (getitem (rv_json r) ''MemorySummary'') (s3, w') (\<lambda>memsum.
       step (getitem memsum ''TotalSystemMemoryGiB'') (s3, w') (\<lambda>gib.
       step (py_float env gib) (s3, w') (\<lambda>g.
       step (int_of_float env
               (fdiv env (fmul env g (float_of_int env (1024 ^ 4))) (float_of_int env (10 ^ 9))))
            (s3, w') (\<lambda>mem.
       (let s4 = metrics_add env ''memory_size'' [] (JInt mem) s3 in
       step (getitem (rv_json r) ''ProcessorSummary'') (s4, w') (\<lambda>procsum.
       step (getitem procsum ''Model'') (s4, w') (\<lambda>model.
       step (getitem (rv_json r) ''ProcessorSummary'') (s4, w') (\<lambda>procsum'.
       step (getitem procsum' ''Count'') (s4, w') (\<lambda>cnt.
       (let s5 = metrics_add env ''cpu_count'' [(''model'', model)] cnt s4 in
       step (getitem (rv_json r) ''BiosVersion'') (s5, w') (\<lambda>bios.
         (Inr (), metrics_add env ''bios_version'' [(''version'', bios)] JNull s5, w')
       )))))))))))))))))) = (Inr (), s', w'')"
    by (simp add: collect_basics_def Let_def)
  from body obtain power where p: "getitem (rv_json r) ''PowerState'' = Inr power"
    by (rule step_Inr)
  note b1 = body [unfolded step_value [OF p] Let_def]
  from b1 obtain status where st: "getitem (rv_json r) ''Status'' = Inr status"
    by (rule step_Inr)
  note b2 = b1 [unfolded step_value [OF st]]
  from b2 obtain health where h: "getitem status ''Health'' = Inr health"
    by (rule step_Inr)
  note b3 = b2 [unfolded step_value [OF h]]
  from b3 obtain led where l: "getitem (rv_json r) ''IndicatorLED'' = Inr led"
    by (rule step_Inr)
  note b4 = b3 [unfolded step_value [OF l] step_value [OF assms(4)] step_value [OF assms(5)]
      step_value [OF assms(6)]]
  from b4 obtain mem where m: "int_of_float env
               (fdiv env (fmul env g (float_of_int env (1024 ^ 4))) (float_of_int env (10 ^ 9)))
             = Inr mem"
    by (rule step_Inr)
  note b5 = b4 [unfolded step_value [OF m]]
  from b5 obtain procsum where ps: "getitem (rv_json r) ''ProcessorSummary'' = Inr procsum"
    by (rule step_Inr)
  note b6 = b5 [unfolded step_value [OF ps]]
  from b6 obtain model where mo: "getitem procsum ''Model'' = Inr model"
    by (rule step_Inr)
  note b7 = b6 [unfolded step_value [OF mo]]
  from b7 obtain cnt where c: "getitem procsum ''Count'' = Inr cnt"
    by (rule step_Inr)
  note b8 = b7 [unfolded step_value [OF c]]
  from b8 obtain bios where bi: "getitem (rv_json r) ''BiosVersion'' = Inr bios"
    by (rule step_Inr)
  note b9 = b8 [unfolded step_value [OF bi]]
  from b9 have s': "s' = metrics_add env ''bios_version'' [(''version'', bios)] JNull
      (metrics_add env ''cpu_count'' [(''model'', model)] cnt
        (metrics_add env ''memory_size'' [] (JInt mem)
          (metrics_add env ''indicator_led_on'' [] (JInt (if led = JStr ''Off'' then 0 else 1))
            (metrics_add env ''health_ok'' [(''status'', health)]
               (JInt (if health = JStr ''OK'' then 1 else 0))
              (metrics_add env ''power_on'' [] (JInt (if power = JStr ''On'' then 1 else 0)) s)))))"
    by simp
  have "length (metrics s') = length (metrics s) + 6
      \<and> metrics s' ! (length (metrics s) + 3) = ''idrac_memory_size '' @ str_int mem"
    unfolding s' by (simp add: metrics_add_def nth_append py_str_def)
  with m show ?thesis by blast
qed


theorem memory_size_value_witness:
  "int_of_float (exact_env (net_table [(system_url, Response 200 (Some system_doc))]))
     (fdiv (exact_env (net_table [(system_url, Response 200 (Some system_doc))]))
        (fmul (exact_env (net_table [(system_url, Response 200 (Some system_doc))])) 64
           (float_of_int (exact_env (net_table [(system_url, Response 200 (Some system_doc))])) (1024 ^ 4)))
        (float_of_int (exact_env (net_table [(system_url, Response 200 (Some system_doc))])) (10 ^ 9)))
     = Inr 70368
   \<and> metrics (fst (snd (collect_basics
        (exact_env (net_table [(system_url, Response 200 (Some system_doc))]))
        (RedfishAPI ''h'') world0))) ! 3 = ''idrac_memory_size 70368''"
proof -
  let ?E = "exact_env (net_table [(system_url, Response 200 (Some system_doc))])"
  let ?S = "RedfishAPI ''h''"
  let ?W = "world0\<lparr>calls := [(system_url, ''Basic None'')]\<rparr>"
  have g: "get ?E ''Systems/System.Embedded.1'' ?S world0
      = (Inr \<lparr>rv_json = system_doc, rv_error = None\<rparr>, ?W)"
    by (simp add: get_def exact_env_def net_table_def Let_def RedfishAPI_def system_url_def
      world0_def)
  have v: "int_of_float ?E (fdiv ?E (fmul ?E 64 (float_of_int ?E (1024 ^ 4)))
      (float_of_int ?E (10 ^ 9))) = Inr 70368"
    by (simp add: exact_env_def floor_eq_iff)
  have "fst (collect_basics ?E ?S world0) = Inr ()"
    by (simp only: collect_basics_def g)
      (simp add: truthy_def system_doc_def getitem_def step_def Let_def py_float_def exact_env_def)
  then have c: "collect_basics ?E ?S world0
      = (Inr (), fst (snd (collect_basics ?E ?S world0)), snd (snd (collect_basics ?E ?S world0)))"
    by (metis prod.collapse)
  have m: "getitem (rv_json \<lparr>rv_json = system_doc, rv_error = None\<rparr>) ''MemorySummary''
      = Inr (JObj [(''TotalSystemMemoryGiB'', JInt 64)])"
    by (simp add: system_doc_def getitem_def)
  have t: "getitem (JObj [(''TotalSystemMemoryGiB'', JInt 64)]) ''TotalSystemMemoryGiB'' = Inr (JInt 64)"
    by (simp add: getitem_def)
  have f: "py_float ?E (JInt 64) = Inr 64"
    by (simp add: py_float_def exact_env_def)
  have e: "\<not> truthy (rv_error \<lparr>rv_json = system_doc, rv_error = None\<rparr>)"
    by (simp add: truthy_def)
  from memory_size_value [OF g e c m t f] v
  have "metrics (fst (snd (collect_basics ?E ?S world0))) ! (length (metrics ?S) + 3)
      = ''idrac_memory_size '' @ str_int 70368"
    by auto
  then have "metrics (fst (snd (collect_basics ?E ?S world0))) ! 3 = ''idrac_memory_size 70368''"
    by (simp add: RedfishAPI_def str_int_def digits.simps)
  with v show ?thesis by simp
qed









section \<open>Targets with an invalid session\<close>

lemma invalid_rejected:
  assumes "invalid_session st target"
  shows "collect_metrics env target st = (Inl (RuntimeError ''Invalid host''), st)"
proof -
  from assms obtain ent obj where e: "hosts st target = Some ent"
    and h: "info_host ent = Some obj" and v: "info_valid ent = Some False"
    by (auto simp: invalid_session_def split: option.splits)
  have "(hosts st)(target \<mapsto> ent) = hosts st"
    using e by (rule map_upd_triv)
  then have "\<lparr>hosts = (hosts st)(target \<mapsto> ent), wld = wld st\<rparr> = st"
    by simp
  with e h v show ?thesis
    by (simp add: collect_metrics_def step_def)
qed

lemma collect_metrics_other:
  assumes "target \<noteq> host"
  shows "hosts (snd (collect_metrics env host st)) target = hosts st target"
  using assms
  by (auto simp: collect_metrics_def step_def split: option.splits prod.splits sum.splits)

lemma collect_metrics_keeps_invalid:
  assumes "invalid_session st target"
  shows "invalid_session (snd (collect_metrics env host st)) target"
proof (cases "target = host")
  case True
  with assms show ?thesis
    by (simp add: invalid_rejected)
next
  case False
  then have "hosts (snd (collect_metrics env host st)) target = hosts st target"
    by (rule collect_metrics_other)
  with assms show ?thesis
    by (simp add: invalid_session_def)
qed

lemma do_GET_keeps_invalid:
  assumes "invalid_session st target"
  shows "invalid_session (snd (do_GET env path st)) target"
proof -
  have "snd (do_GET env path st) = st
      \<or> (\<exists>host. snd (do_GET env path st) = snd (collect_metrics env host st))"
    by (auto simp: do_GET_def split: option.splits prod.splits sum.splits) (metis snd_conv)+
  with assms show ?thesis
    by (auto simp: collect_metrics_keeps_invalid)
qed

lemma serve_forever_keeps_invalid:
  "invalid_session st target \<Longrightarrow> invalid_session (serve_forever env paths st) target"
  by (induction paths arbitrary: st) (simp_all add: do_GET_keeps_invalid)

lemma re_match_metrics:
  assumes "newline \<notin> set target"
  shows "re_match (''/metrics?target='' @ target) = Some (''metrics'', Some target)"
  using assms by (auto simp: re_match_def is_lower_def)

lemma failed_probe_marks_invalid:
  assumes "hosts st target = Some ent" and "info_host ent = None"
    and "fst (authenticate env (info_token ent) (RedfishAPI target) (wld st)) = False"
  shows "fst (collect_metrics env target st) = Inl (RuntimeError ''Invalid host'')
       \<and> invalid_session (snd (collect_metrics env target st)) target"
  using assms
  by (auto simp: collect_metrics_def step_def invalid_session_def split: prod.splits)

text \<open>
  C3. Let the session of a target be marked invalid, as \<open>collect_metrics\<close> leaves
  it when the probe has failed (\<open>failed_probe_marks_invalid\<close>). Then after any
  sequence of further requests, for this or any other target, a collection request for the
  target raises the same \<open>RuntimeError('Invalid host')\<close> and leaves the whole state
  as it was: no request is added to the calls of the world, no collector has run on the
  object, and the session is still marked invalid. The handler answers such a request
  with status 500 and an empty body.
\<close>

theorem invalid_session_rejected_forever:
  assumes "invalid_session st target"
  shows "collect_metrics env target (serve_forever env paths st)
           = (Inl (RuntimeError ''Invalid host''), serve_forever env paths st)
       \<and> invalid_session (serve_forever env paths st) target
       \<and> (target \<noteq> [] \<and> newline \<notin> set target
          \<longrightarrow> do_GET env (''/metrics?target='' @ target) (serve_forever env paths st)
                = (Inr (500, []), serve_forever env paths st))"
proof -
  from assms have inv: "invalid_session (serve_forever env paths st) target"
    by (rule serve_forever_keeps_invalid)
  then have rej: "collect_metrics env target (serve_forever env paths st)
      = (Inl (RuntimeError ''Invalid host''), serve_forever env paths st)"
    by (rule invalid_rejected)
  have "do_GET env (''/metrics?target='' @ target) (serve_forever env paths st)
      = (Inr (500, []), serve_forever env paths st)"
    if "target \<noteq> []" and "newline \<notin> set target"
    using that rej re_match_metrics [of target] by (simp add: do_GET_def)
  with inv rej show ?thesis
    by blast
qed

theorem invalid_session_rejected_forever_witness:
  "collect_metrics (exact_env (net_table [])) ''h''
      (serve_forever (exact_env (net_table []))
         [''/metrics?target=h'', ''/metrics?target=other'', ''/metrics?target=h'']
         (snd (collect_metrics (exact_env (net_table [])) ''h'' state0)))
     = (Inl (RuntimeError ''Invalid host''),
        serve_forever (exact_env (net_table []))
         [''/metrics?target=h'', ''/metrics?target=other'', ''/metrics?target=h'']
         (snd (collect_metrics (exact_env (net_table [])) ''h'' state0)))
   \<and> do_GET (exact_env (net_table [])) ''/metrics?target=h''
      (serve_forever (exact_env (net_table []))
         [''/metrics?target=h'', ''/metrics?target=other'', ''/metrics?target=h'']
         (snd (collect_metrics (exact_env (net_table [])) ''h'' state0)))
     = (Inr (500, []),
        serve_forever (exact_env (net_table []))
         [''/metrics?target=h'', ''/metrics?target=other'', ''/metrics?target=h'']
         (snd (collect_metrics (exact_env (net_table [])) ''h'' state0)))"
proof -
  let ?E = "exact_env (net_table [])"
  have a: "fst (authenticate ?E ''dTpw'' (RedfishAPI ''h'') world0) = False"
    by (simp add: authenticate_def get_def exact_env_def net_table_def Let_def truthy_def)
  have "invalid_session (snd (collect_metrics ?E ''h'' state0)) ''h''"
    using failed_probe_marks_invalid [of state0 "''h''" _ ?E] a
    by (simp add: state0_def)
  then show ?thesis
    using invalid_session_rejected_forever [of "snd (collect_metrics ?E ''h'' state0)" "''h''" ?E
        "[''/metrics?target=h'', ''/metrics?target=other'', ''/metrics?target=h'']"]
    by (simp add: newline_def)
qed

section \<open>Requests\<close>

lemma do_GET_matched:
  assumes "re_match path = Some (b, p)"
  shows "fst (do_GET env path st) =
     (if b \<noteq> ''metrics'' then Inr (404, [])
      else case p of
             None \<Rightarrow> Inr (400, [])
           | Some target \<Rightarrow>
               (if target = [] then Inr (400, [])
                else case fst (collect_metrics env target st) of
                       Inl e \<Rightarrow> Inr (500, [])
                     | Inr text \<Rightarrow> Inr (200, text)))"
  using assms by (simp add: do_GET_def split: option.splits prod.splits sum.splits)

text \<open>
  C4. For a path that the pattern matches, \<open>do_GET_matched\<close> gives the answer: 404
  when the first group is not \<open>metrics\<close>, 400 when the target is missing or empty,
  500 with an empty body when the collection raises, and 200 with the text otherwise. The
  pattern does not match every path: for \<open>/\<close> the match is None, and
  \<open>do_GET\<close> raises AttributeError before it has sent a status.
\<close>

theorem do_GET_root_path_raises:
  "re_match ''/'' = None \<and> do_GET env ''/'' st = (Inl AttributeError, st)"
  by (simp add: do_GET_def re_match_def)

text \<open>
  C10. Rendering a cleared sink gives one newline. So a pass in which the three collectors
  return normally and leave the sink empty returns the text of one newline, and a request
  whose collection returns that text is answered with status 200 and that one-character
  body.
\<close>

theorem empty_pass_renders_newline:
  "fst (metrics_get (metrics_clear s)) = [newline]
   \<and> (collect_basics env (metrics_clear s) w = (Inr (), s1, w1)
        \<and> collect_sensors env s1 w1 = (Inr (), s2, w2)
        \<and> collect_sel env s2 w2 = (Inr (), s3, w3)
        \<and> metrics s3 = []
      \<longrightarrow> fst (RedfishAPI_collect_metrics env s w) = Inr [newline])
   \<and> (re_match path = Some (''metrics'', Some target) \<and> target \<noteq> []
        \<and> fst (collect_metrics env target st) = Inr [newline]
      \<longrightarrow> fst (do_GET env path st) = Inr (200, [newline]))"
  by (simp add: metrics_get_def metrics_clear_def RedfishAPI_collect_metrics_def do_GET_matched)

theorem do_GET_root_path_raises_witness:
  "do_GET (exact_env (net_table [])) ''/'' state0 = (Inl AttributeError, state0)"
  using do_GET_root_path_raises [of "exact_env (net_table [])" state0]
  by simp

theorem empty_pass_renders_newline_witness:
  "fst (metrics_get (metrics_clear (RedfishAPI ''h''))) = [newline]
   \<and> fst (RedfishAPI_collect_metrics
            (exact_env (net_table [(chassis_url, Response 200 (Some JNull))]))
            (RedfishAPI ''h'') world0) = Inr [newline]
   \<and> fst (do_GET (exact_env (net_table [(chassis_url, Response 200 (Some JNull))]))
            ''/metrics?target=h'' state0) = Inr (200, [newline])"
proof -
  let ?E = "exact_env (net_table [(chassis_url, Response 200 (Some JNull))])"
  let ?S = "metrics_clear (RedfishAPI ''h'')"
  have b: "collect_basics ?E ?S world0
      = (Inr (), ?S, snd (snd (collect_basics ?E ?S world0)))"
    by (simp add: collect_basics_def get_def exact_env_def net_table_def Let_def truthy_def
      chassis_url_def RedfishAPI_def metrics_clear_def)
  have s: "collect_sensors ?E ?S (snd (snd (collect_basics ?E ?S world0)))
      = (Inr (), ?S, snd (snd (collect_sensors ?E ?S (snd (snd (collect_basics ?E ?S world0))))))"
    by (simp add: collect_sensors_def get_def exact_env_def net_table_def Let_def truthy_def
      chassis_url_def RedfishAPI_def metrics_clear_def)
  have l: "collect_sel ?E ?S (snd (snd (collect_sensors ?E ?S (snd (snd (collect_basics ?E ?S world0))))))
      = (Inr (), ?S, snd (snd (collect_sel ?E ?S
           (snd (snd (collect_sensors ?E ?S (snd (snd (collect_basics ?E ?S world0)))))))))"
    by (simp add: collect_sel_def get_def exact_env_def net_table_def Let_def truthy_def
      chassis_url_def RedfishAPI_def metrics_clear_def)
  have m: "metrics ?S = []"
    by (simp add: metrics_clear_def)
  have r: "re_match ''/metrics?target=h'' = Some (''metrics'', Some ''h'')"
    by (simp add: re_match_def is_lower_def newline_def)
  have c: "fst (collect_metrics ?E ''h'' state0) = Inr [newline]"
    by (simp add: collect_metrics_def state0_def step_def authenticate_def get_def exact_env_def
      net_table_def Let_def truthy_def chassis_url_def RedfishAPI_def world0_def
      RedfishAPI_collect_metrics_def collect_basics_def collect_sensors_def collect_sel_def
      metrics_clear_def metrics_get_def)
  show ?thesis
    using empty_pass_renders_newline [of "RedfishAPI ''h''" ?E world0 ?S _ ?S _ ?S _
        "''/metrics?target=h''" "''h''" state0] b s l m r c
    by simp
qed

end
